theory Spec2Isabelle
  imports Main
begin

section \<open>Data model of nova/auth/manager.py\<close>

text \<open>
  The classes \<^verbatim>\<open>User\<close> and \<^verbatim>\<open>Project\<close> are plain data objects. Field names carry a
  prefix because \<open>id\<close> is the identity function of HOL and two records cannot share a
  field name.
\<close>

record User =
  user_id :: string
  user_name :: string
  access :: string
  secret :: string
  admin :: bool

record Project =
  project_id :: string
  project_name :: string
  project_manager_id :: string
  description :: string
  member_ids :: "string list"

text \<open>
  ``Methods accept objects or ids'': a user argument is a \<^verbatim>\<open>User\<close> or a uid, a project
  argument is a \<^verbatim>\<open>Project\<close>, a project id, or \<^verbatim>\<open>None\<close> (the default of the optional
  parameter).
\<close>

datatype user_arg = UserObj User | UserId string

datatype project_arg = NoProject | ProjectId string | ProjectObj Project

text \<open>
  Exceptions are values. \<^verbatim>\<open>exception.Error\<close> is the base class and carries its message;
  \<^verbatim>\<open>NotFound\<close>, \<^verbatim>\<open>NotAuthorized\<close> and \<^verbatim>\<open>NoMorePorts\<close> are the subclasses raised by
  the methods modelled here. \<open>AttributeError\<close> is Python's own, raised by an attribute
  access on \<^verbatim>\<open>None\<close> or on a string. \<open>External\<close> stands for an exception raised inside a
  collaborator (the file system, the crypto module).
\<close>

datatype error =
    Error string
  | NotFound string
  | NotAuthorized string
  | NoMorePorts
  | AttributeError
  | External string

text \<open>
  The value a method returns where the source distinguishes \<^verbatim>\<open>True\<close>, \<^verbatim>\<open>False\<close> and
  falling off the end of the function (\<^verbatim>\<open>None\<close>).
\<close>

datatype pyval = PyBool bool | PyNone

fun truthy :: "pyval \<Rightarrow> bool" where
  "truthy (PyBool b) = b"
| "truthy PyNone = False"

text \<open>The flags the module defines and reads.\<close>

record flags =
  superuser_roles :: "string list"
  global_roles :: "string list"
  use_vpn :: bool
  vpn_start_port :: int
  vpn_end_port :: int
  vpn_ip :: string
  credential_key_file :: string
  credential_cert_file :: string
  credential_rc_file :: string
  ca_file :: string

text \<open>
  The driver object (\<^verbatim>\<open>nova.auth.ldapdriver\<close>) is not part of this module. It is a
  parameter: the read methods the manager calls, each returning what the backend holds.
  A user or project dictionary that is absent or empty is \<open>None\<close>.
\<close>

record driver =
  drv_get_user :: "string \<Rightarrow> User option"
  drv_get_user_from_access_key :: "string \<Rightarrow> User option"
  drv_get_project :: "string \<Rightarrow> Project option"
  drv_has_role :: "string \<Rightarrow> string \<Rightarrow> string option \<Rightarrow> bool"

text \<open>
  Modelled from the spec: \<^verbatim>\<open>nova.auth.signer.Signer\<close>, which is not among the sources.
  Section 4.2 of the specification says that computing the expected signature is a
  deterministic function of the secret key and the canonical request and never raises.
  The first argument is the secret key.
\<close>

record ('p, 'h) signer =
  s3_authorization :: "string \<Rightarrow> 'h \<Rightarrow> string \<Rightarrow> string \<Rightarrow> string"
  generate :: "string \<Rightarrow> 'p \<Rightarrow> string \<Rightarrow> string \<Rightarrow> string \<Rightarrow> string"

section \<open>AuthBase.safe\_id and truthiness of arguments\<close>

fun user_safe_id :: "user_arg \<Rightarrow> string" where
  "user_safe_id (UserObj u) = user_id u"
| "user_safe_id (UserId uid) = uid"

fun project_safe_id :: "project_arg \<Rightarrow> string option" where
  "project_safe_id NoProject = None"
| "project_safe_id (ProjectId pid) = Some pid"
| "project_safe_id (ProjectObj p) = Some (project_id p)"

text \<open>
  \<^verbatim>\<open>not project\<close>: \<^verbatim>\<open>None\<close> and the empty string are false, every other string and
  every \<^verbatim>\<open>Project\<close> object is true.
\<close>

fun project_given :: "project_arg \<Rightarrow> bool" where
  "project_given NoProject = False"
| "project_given (ProjectId pid) = (pid \<noteq> [])"
| "project_given (ProjectObj p) = True"

section \<open>Lookups\<close>

definition get_user :: "driver \<Rightarrow> string \<Rightarrow> User option" where
  "get_user drv uid = drv_get_user drv uid"

definition get_user_from_access_key :: "driver \<Rightarrow> string \<Rightarrow> User option" where
  "get_user_from_access_key drv access_key = drv_get_user_from_access_key drv access_key"

definition get_project :: "driver \<Rightarrow> string \<Rightarrow> Project option" where
  "get_project drv pid = drv_get_project drv pid"

text \<open>
  \<^verbatim>\<open>if not isinstance(x, C): x = self.get_x(x)\<close>. The lookup may give \<^verbatim>\<open>None\<close>; the
  attribute access that follows then raises.
\<close>

fun resolve_user :: "driver \<Rightarrow> user_arg \<Rightarrow> User option" where
  "resolve_user drv (UserObj u) = Some u"
| "resolve_user drv (UserId uid) = get_user drv uid"

text \<open>
  \<^verbatim>\<open>self.get_project(None)\<close> hands \<^verbatim>\<open>None\<close> to the driver; no project has that id.
\<close>

fun resolve_project :: "driver \<Rightarrow> project_arg \<Rightarrow> Project option" where
  "resolve_project drv (ProjectObj p) = Some p"
| "resolve_project drv (ProjectId pid) = get_project drv pid"
| "resolve_project drv NoProject = None"

section \<open>Project manager and membership\<close>

definition is_project_manager :: "driver \<Rightarrow> user_arg \<Rightarrow> project_arg \<Rightarrow> error + bool" where
  "is_project_manager drv user project =
     (case resolve_project drv project of
        None \<Rightarrow> Inl AttributeError
      | Some p \<Rightarrow> Inr (user_safe_id user = project_manager_id p))"

definition is_project_member :: "driver \<Rightarrow> user_arg \<Rightarrow> project_arg \<Rightarrow> error + bool" where
  "is_project_member drv user project =
     (case resolve_project drv project of
        None \<Rightarrow> Inl AttributeError
      | Some p \<Rightarrow> Inr (user_safe_id user \<in> set (member_ids p)))"

section \<open>Roles\<close>

definition has_role :: "flags \<Rightarrow> driver \<Rightarrow> user_arg \<Rightarrow> string \<Rightarrow> project_arg \<Rightarrow> error + bool" where
  "has_role cfg drv user role project =
     (if role = ''projectmanager'' then
        (if \<not> project_given project then Inl (Error ''Must specify project'')
         else is_project_manager drv user project)
      else
        (let global_role = drv_has_role drv (user_safe_id user) role None in
         if \<not> global_role then Inr global_role
         else if \<not> project_given project \<or> role \<in> set (global_roles cfg) then Inr global_role
         else Inr (drv_has_role drv (user_safe_id user) role (project_safe_id project))))"

text \<open>
  The loop \<^verbatim>\<open>for role in roles: if self.has_role(user, role): return True\<close>. An
  exception of \<^verbatim>\<open>has_role\<close> leaves the loop; a loop that ends without returning lets the
  method fall off its end, which returns \<^verbatim>\<open>None\<close>.
\<close>

fun any_role :: "flags \<Rightarrow> driver \<Rightarrow> User \<Rightarrow> string list \<Rightarrow> error + pyval" where
  "any_role cfg drv u [] = Inr PyNone"
| "any_role cfg drv u (role # roles) =
     (case has_role cfg drv (UserObj u) role NoProject of
        Inl e \<Rightarrow> Inl e
      | Inr held \<Rightarrow> if held then Inr (PyBool True) else any_role cfg drv u roles)"

definition is_superuser :: "flags \<Rightarrow> driver \<Rightarrow> user_arg \<Rightarrow> error + pyval" where
  "is_superuser cfg drv user =
     (case resolve_user drv user of
        None \<Rightarrow> Inl AttributeError
      | Some u \<Rightarrow>
          if admin u then Inr (PyBool True)
          else any_role cfg drv u (superuser_roles cfg))"

definition is_admin :: "flags \<Rightarrow> driver \<Rightarrow> user_arg \<Rightarrow> error + pyval" where
  "is_admin cfg drv user =
     (case resolve_user drv user of
        None \<Rightarrow> Inl AttributeError
      | Some u \<Rightarrow>
          (case is_superuser cfg drv (UserObj u) of
             Inl e \<Rightarrow> Inl e
           | Inr su \<Rightarrow>
               if truthy su then Inr (PyBool True)
               else any_role cfg drv u (global_roles cfg)))"

text \<open>
  \<^verbatim>\<open>add_role\<close> and \<^verbatim>\<open>remove_role\<close> consist of one call of the driver. The driver's
  method is the first argument; the result is whatever that call does.
\<close>

definition add_role ::
  "(string \<Rightarrow> string \<Rightarrow> string option \<Rightarrow> 'r) \<Rightarrow> user_arg \<Rightarrow> string \<Rightarrow> project_arg \<Rightarrow> 'r" where
  "add_role drv_add_role user role project =
     drv_add_role (user_safe_id user) role (project_safe_id project)"

definition remove_role ::
  "(string \<Rightarrow> string \<Rightarrow> string option \<Rightarrow> 'r) \<Rightarrow> user_arg \<Rightarrow> string \<Rightarrow> project_arg \<Rightarrow> 'r" where
  "remove_role drv_remove_role user role project =
     drv_remove_role (user_safe_id user) role (project_safe_id project)"

section \<open>Authentication\<close>

text \<open>
  \<^verbatim>\<open>str.partition\<close>: split at the first occurrence of the separator. In \<open>authenticate\<close>
  the logging calls are left out, and \<^verbatim>\<open>user.secret.encode()\<close> is the secret itself.
\<close>

definition str_partition :: "string \<Rightarrow> char \<Rightarrow> string \<times> string \<times> string" where
  "str_partition s c =
     (case dropWhile (\<lambda>x. x \<noteq> c) s of
        [] \<Rightarrow> (s, [], [])
      | _ # rest \<Rightarrow> (takeWhile (\<lambda>x. x \<noteq> c) s, [c], rest))"

definition authenticate ::
  "flags \<Rightarrow> driver \<Rightarrow> ('p, 'h) signer \<Rightarrow> string \<Rightarrow> string \<Rightarrow> 'p \<Rightarrow> string \<Rightarrow> string \<Rightarrow>
   string \<Rightarrow> string \<Rightarrow> 'h \<Rightarrow> error + User \<times> Project" where
  "authenticate cfg drv sg access_str signature params verb server_string path check_type headers =
     (case str_partition access_str CHR '':'' of (access_key, sep, pid0) \<Rightarrow>
      (case get_user_from_access_key drv access_key of
         None \<Rightarrow> Inl (NotFound (''No user found for access key '' @ access_key))
       | Some user \<Rightarrow>
          (let pid = (if pid0 = [] then user_name user else pid0) in
           case get_project drv pid of
             None \<Rightarrow> Inl (NotFound (''No project called '' @ pid @ '' could be found''))
           | Some project \<Rightarrow>
              (case is_admin cfg drv (UserObj user) of
                 Inl e \<Rightarrow> Inl e
               | Inr adm \<Rightarrow>
                  (case (if truthy adm then Inr True
                         else is_project_member drv (UserObj user) (ProjectObj project)) of
                     Inl e \<Rightarrow> Inl e
                   | Inr allowed \<Rightarrow>
                      if \<not> allowed then
                        Inl (NotFound (''User '' @ user_id user @ '' is not a member of project ''
                                        @ project_id project))
                      else if check_type = ''s3'' then
                        (if signature \<noteq> s3_authorization sg (secret user) headers verb path
                         then Inl (NotAuthorized ''Signature does not match'')
                         else Inr (user, project))
                      else if check_type = ''ec2'' then
                        (if signature \<noteq> generate sg (secret user) params verb server_string path
                         then Inl (NotAuthorized ''Signature does not match'')
                         else Inr (user, project))
                      else Inr (user, project))))))"

section \<open>The key-value store\<close>

text \<open>
  Modelled from the spec: the key-value store with atomic set operations
  (\<^verbatim>\<open>nova.datastore.Redis\<close>, which is not among the sources): \<^verbatim>\<open>exists\<close>, \<^verbatim>\<open>sadd\<close>,
  \<^verbatim>\<open>spop\<close>, \<^verbatim>\<open>srem\<close> and \<^verbatim>\<open>scard\<close> on the set stored under a key. A set is kept as a
  list on which the operations act as on a set: \<open>sadd\<close> adds a member that is not there
  yet, \<open>spop\<close> and \<open>srem\<close> remove every occurrence, \<open>scard\<close> counts distinct members.

  \<open>spop\<close> removes and returns an arbitrary member. The member the store picks is an
  input of the model: the number \<open>choice\<close> selects a position of the list, so that every
  member can be the one returned.

  The interface does not say whether a key whose set has become empty still exists (in
  Redis it does not). The flag \<open>vanish\<close> covers both readings: when it is set, a set that
  becomes empty is deleted with its key.
\<close>

definition redis_exists :: "('k \<rightharpoonup> 'a list) \<Rightarrow> 'k \<Rightarrow> bool" where
  "redis_exists m key = (m key \<noteq> None)"

definition smembers :: "('k \<rightharpoonup> 'a list) \<Rightarrow> 'k \<Rightarrow> 'a list" where
  "smembers m key = (case m key of None \<Rightarrow> [] | Some xs \<Rightarrow> xs)"

definition redis_sadd :: "('k \<rightharpoonup> 'a list) \<Rightarrow> 'k \<Rightarrow> 'a \<Rightarrow> ('k \<rightharpoonup> 'a list)" where
  "redis_sadd m key v = m(key \<mapsto> List.insert v (smembers m key))"

definition store_set :: "bool \<Rightarrow> ('k \<rightharpoonup> 'a list) \<Rightarrow> 'k \<Rightarrow> 'a list \<Rightarrow> ('k \<rightharpoonup> 'a list)" where
  "store_set vanish m key xs = (if xs = [] \<and> vanish then m(key := None) else m(key \<mapsto> xs))"

definition redis_spop ::
  "bool \<Rightarrow> nat \<Rightarrow> ('k \<rightharpoonup> 'a list) \<Rightarrow> 'k \<Rightarrow> 'a option \<times> ('k \<rightharpoonup> 'a list)" where
  "redis_spop vanish choice m key =
     (case smembers m key of
        [] \<Rightarrow> (None, m)
      | x # xs \<Rightarrow>
          (let v = (x # xs) ! (choice mod length (x # xs))
           in (Some v, store_set vanish m key (removeAll v (x # xs)))))"

definition redis_srem :: "bool \<Rightarrow> ('k \<rightharpoonup> 'a list) \<Rightarrow> 'k \<Rightarrow> 'a \<Rightarrow> ('k \<rightharpoonup> 'a list)" where
  "redis_srem vanish m key v =
     (case m key of
        None \<Rightarrow> m
      | Some xs \<Rightarrow> store_set vanish m key (removeAll v xs))"

definition redis_scard :: "('k \<rightharpoonup> 'a list) \<Rightarrow> 'k \<Rightarrow> nat" where
  "redis_scard m key = card (set (smembers m key))"

section \<open>Vpn: ports for projects\<close>

text \<open>
  A \<^verbatim>\<open>Vpn\<close> object: its identifier is the project id, its state holds the ip and the
  port. Redis keeps the port as a decimal string and the property \<^verbatim>\<open>port\<close> reads it back
  with \<^verbatim>\<open>int\<close>; the model keeps the integer.
\<close>

record Vpn =
  vpn_project :: string
  ip :: string
  port :: int

text \<open>
  The part of the store the class uses. The keys are built from an ip or a project id,
  and the three families of keys cannot collide, so each family is a map of its own:
  \<open>port_sets\<close> at \<open>a\<close> is the set under \<^verbatim>\<open>'ip:%s:ports' % a\<close>, \<open>assoc_sets\<close> at \<open>a\<close> is the
  set under \<^verbatim>\<open>Vpn._redis_association_name('ip', a)\<close> (the identifiers of the saved
  \<^verbatim>\<open>Vpn\<close> objects with that ip), \<open>vpn_hashes\<close> at \<open>p\<close> is the saved state of \<^verbatim>\<open>Vpn(p)\<close>.
\<close>

record datastore =
  empty_sets_vanish :: bool
  port_sets :: "string \<rightharpoonup> int list"
  assoc_sets :: "string \<rightharpoonup> string list"
  vpn_hashes :: "string \<rightharpoonup> Vpn"

text \<open>
  A method that changes the store returns its result, or the exception it raised,
  together with the store it leaves behind. In \<open>find_free_port_for_ip\<close> the loop over
  \<^verbatim>\<open>range(FLAGS.vpn_start_port, FLAGS.vpn_end_port + 1)\<close> is a fold over the list from the
  start port to the end port, and \<^verbatim>\<open>not port\<close> holds exactly when \<open>spop\<close> returned
  \<^verbatim>\<open>None\<close>, since a member comes back from the store as a non-empty string.
\<close>

definition find_free_port_for_ip ::
  "flags \<Rightarrow> nat \<Rightarrow> string \<Rightarrow> datastore \<Rightarrow> (error + int) \<times> datastore" where
  "find_free_port_for_ip cfg choice addr st =
     (let st1 =
        (if \<not> redis_exists (port_sets st) addr \<and> \<not> redis_exists (assoc_sets st) addr
         then st\<lparr>port_sets := fold (\<lambda>i m. redis_sadd m addr i)
                                  [vpn_start_port cfg..vpn_end_port cfg] (port_sets st)\<rparr>
         else st)
      in case redis_spop (empty_sets_vanish st1) choice (port_sets st1) addr of
           (None, m) \<Rightarrow> (Inl NoMorePorts, st1)
         | (Some p, m) \<Rightarrow> (Inr p, st1\<lparr>port_sets := m\<rparr>))"

definition num_ports_for_ip :: "string \<Rightarrow> datastore \<Rightarrow> nat" where
  "num_ports_for_ip addr st = redis_scard (port_sets st) addr"

text \<open>
  \<^verbatim>\<open>Vpn.save\<close> associates the object with its ip and saves its state. Modelled from the
  spec: \<^verbatim>\<open>BasicModel.associate_with\<close>, \<^verbatim>\<open>unassociate_with\<close>, \<^verbatim>\<open>save\<close>, \<^verbatim>\<open>destroy\<close> and
  \<^verbatim>\<open>lookup\<close> of \<^verbatim>\<open>nova.datastore\<close>, which is not among the sources: they add the
  identifier to the association set, remove it, write the state, delete the state, and
  return the saved object or \<^verbatim>\<open>None\<close>.
\<close>

definition vpn_save :: "Vpn \<Rightarrow> datastore \<Rightarrow> datastore" where
  "vpn_save vpn st =
     st\<lparr>assoc_sets := redis_sadd (assoc_sets st) (ip vpn) (vpn_project vpn),
        vpn_hashes := (vpn_hashes st)(vpn_project vpn \<mapsto> vpn)\<rparr>"

definition vpn_lookup :: "datastore \<Rightarrow> string \<Rightarrow> Vpn option" where
  "vpn_lookup st pid = vpn_hashes st pid"

definition vpn_create :: "flags \<Rightarrow> nat \<Rightarrow> string \<Rightarrow> datastore \<Rightarrow> (error + Vpn) \<times> datastore" where
  "vpn_create cfg choice pid st =
     (case find_free_port_for_ip cfg choice (vpn_ip cfg) st of
        (Inl e, st1) \<Rightarrow> (Inl e, st1)
      | (Inr p, st1) \<Rightarrow>
          (let vpn = \<lparr>vpn_project = pid, ip = vpn_ip cfg, port = p\<rparr>
           in (Inr vpn, vpn_save vpn st1)))"

definition vpn_destroy :: "Vpn \<Rightarrow> datastore \<Rightarrow> datastore" where
  "vpn_destroy vpn st =
     st\<lparr>assoc_sets := redis_srem (empty_sets_vanish st) (assoc_sets st) (ip vpn) (vpn_project vpn),
        port_sets := redis_sadd (port_sets st) (ip vpn) (port vpn),
        vpn_hashes := (vpn_hashes st)(vpn_project vpn := None)\<rparr>"

text \<open>
  The ports that are free for an address, and the scenario of allocating and releasing
  in turn: each round creates a \<^verbatim>\<open>Vpn\<close> for a project and destroys it again. A round is
  the choice the store makes in \<open>spop\<close> and the project id. The ports handed out are
  collected.
\<close>

definition free_ports :: "datastore \<Rightarrow> string \<Rightarrow> int set" where
  "free_ports st addr = set (smembers (port_sets st) addr)"

fun create_destroy_rounds ::
  "flags \<Rightarrow> (nat \<times> string) list \<Rightarrow> datastore \<Rightarrow> (error + int list) \<times> datastore" where
  "create_destroy_rounds cfg [] st = (Inr [], st)"
| "create_destroy_rounds cfg ((choice, pid) # rounds) st =
     (case vpn_create cfg choice pid st of
        (Inl e, st1) \<Rightarrow> (Inl e, st1)
      | (Inr vpn, st1) \<Rightarrow>
          (case create_destroy_rounds cfg rounds (vpn_destroy vpn st1) of
             (Inl e, st2) \<Rightarrow> (Inl e, st2)
           | (Inr ps, st2) \<Rightarrow> (Inr (port vpn # ps), st2)))"

text \<open>
  The pool of an address is materialized when the guard of the seeding loop in
  \<open>find_free_port_for_ip\<close> is false: the set of ports exists, or some \<^verbatim>\<open>Vpn\<close> is
  associated with the address. \<open>seeded_ports\<close> is the set of ports \<open>spop\<close> chooses from,
  that is, the free ports after the seeding step.
\<close>

definition pool_materialized :: "datastore \<Rightarrow> string \<Rightarrow> bool" where
  "pool_materialized st addr =
     (redis_exists (port_sets st) addr \<or> redis_exists (assoc_sets st) addr)"

definition seeded_ports :: "flags \<Rightarrow> datastore \<Rightarrow> string \<Rightarrow> int set" where
  "seeded_ports cfg st addr =
     (if pool_materialized st addr then free_ports st addr
      else {vpn_start_port cfg..vpn_end_port cfg})"

section \<open>Credentials\<close>

text \<open>
  The collaborators of \<open>get_credentials\<close> are parameters, each returning its result or the
  exception it raised: \<^verbatim>\<open>__generate_rc(access, secret, pid)\<close>, which reads the template
  file and fills it in; \<^verbatim>\<open>_generate_x509_cert(uid, pid)\<close>, which calls the crypto module
  and returns the private key and the signed certificate; the rendering of the vpn
  client template with key file, certificate file, ip and port; \<^verbatim>\<open>crypto.fetch_ca\<close>.
\<close>

record collaborators =
  generate_rc :: "string \<Rightarrow> string \<Rightarrow> string \<Rightarrow> error + string"
  generate_x509_cert :: "string \<Rightarrow> string \<Rightarrow> error + string \<times> string"
  vpn_client_config :: "string \<Rightarrow> string \<Rightarrow> string \<Rightarrow> int \<Rightarrow> error + string"
  fetch_ca :: "string \<Rightarrow> error + string"

text \<open>
  \<^verbatim>\<open>if project is None: project = user.id\<close>, then \<^verbatim>\<open>pid = Project.safe_id(project)\<close>.
\<close>

fun credentials_pid :: "User \<Rightarrow> project_arg \<Rightarrow> string" where
  "credentials_pid u NoProject = user_id u"
| "credentials_pid u (ProjectId pid) = pid"
| "credentials_pid u (ProjectObj p) = project_id p"

text \<open>
  The message of the exception for a missing \<^verbatim>\<open>Vpn\<close> is built from \<^verbatim>\<open>project.name\<close>.
  When \<^verbatim>\<open>project\<close> is an id, or was replaced by \<^verbatim>\<open>user.id\<close>, it is a string and the
  attribute access raises \<open>AttributeError\<close> before \<^verbatim>\<open>exception.Error\<close> is constructed.
\<close>

fun no_vpn_error :: "project_arg \<Rightarrow> error" where
  "no_vpn_error (ProjectObj p) = Error (''No vpn data allocated for project '' @ project_name p)"
| "no_vpn_error (ProjectId pid) = AttributeError"
| "no_vpn_error NoProject = AttributeError"

text \<open>
  The zip archive is the list of its entries, file name and contents, in the order they
  are written.
\<close>

definition get_credentials ::
  "flags \<Rightarrow> driver \<Rightarrow> collaborators \<Rightarrow> datastore \<Rightarrow> user_arg \<Rightarrow> project_arg
   \<Rightarrow> error + (string \<times> string) list" where
  "get_credentials cfg drv ext st user project =
     (case resolve_user drv user of
        None \<Rightarrow> Inl AttributeError
      | Some u \<Rightarrow>
         (let pid = credentials_pid u project in
          case generate_rc ext (access u) (secret u) pid of
            Inl e \<Rightarrow> Inl e
          | Inr rc \<Rightarrow>
             (case generate_x509_cert ext (user_id u) pid of
                Inl e \<Rightarrow> Inl e
              | Inr (private_key, signed_cert) \<Rightarrow>
                 (case vpn_lookup st pid of
                    None \<Rightarrow> Inl (no_vpn_error project)
                  | Some vpn \<Rightarrow>
                     (case vpn_client_config ext (credential_key_file cfg)
                             (credential_cert_file cfg) (ip vpn) (port vpn) of
                        Inl e \<Rightarrow> Inl e
                      | Inr config \<Rightarrow>
                         (case fetch_ca ext (user_id u) of
                            Inl e \<Rightarrow> Inl e
                          | Inr ca \<Rightarrow>
                              Inr [(credential_rc_file cfg, rc),
                                   (credential_key_file cfg, private_key),
                                   (credential_cert_file cfg, signed_cert),
                                   (''nebula-client.conf'', config),
                                   (ca_file cfg, ca)]))))))"

section \<open>Example data\<close>

text \<open>
  The default flags of the module, one ordinary user who manages and belongs to project
  \<open>t1\<close>, one user with the admin flag, and a backend whose only role grant is the
  project-scoped grant of \<open>netadmin\<close> to \<open>u1\<close> in \<open>t1\<close>.
\<close>

definition example_flags :: flags where
  "example_flags = \<lparr>superuser_roles = [''cloudadmin''], global_roles = [''cloudadmin'', ''itsec''],
     use_vpn = True, vpn_start_port = 1000, vpn_end_port = 2000, vpn_ip = ''127.0.0.1'',
     credential_key_file = ''pk.pem'', credential_cert_file = ''cert.pem'',
     credential_rc_file = ''novarc'', ca_file = ''cacert.pem''\<rparr>"

definition u1 :: User where
  "u1 = \<lparr>user_id = ''u1'', user_name = ''u1'', access = ''AK1'', secret = ''SK1'', admin = False\<rparr>"

definition root_user :: User where
  "root_user = \<lparr>user_id = ''root'', user_name = ''root'', access = ''AK0'', secret = ''SK0'',
     admin = True\<rparr>"

definition t1 :: Project where
  "t1 = \<lparr>project_id = ''t1'', project_name = ''t1'', project_manager_id = ''u1'',
          description = ''t1'', member_ids = [''u1'']\<rparr>"

definition t2 :: Project where
  "t2 = \<lparr>project_id = ''t2'', project_name = ''t2'', project_manager_id = ''root'',
          description = ''t2'', member_ids = [''root'']\<rparr>"

definition example_driver :: driver where
  "example_driver = \<lparr>
     drv_get_user = (\<lambda>uid. if uid = ''u1'' then Some u1
                            else if uid = ''root'' then Some root_user else None),
     drv_get_user_from_access_key = (\<lambda>k. if k = ''AK1'' then Some u1
                            else if k = ''AK0'' then Some root_user else None),
     drv_get_project = (\<lambda>pid. if pid = ''t1'' then Some t1
                            else if pid = ''t2'' then Some t2 else None),
     drv_has_role = (\<lambda>uid role scope. uid = ''u1'' \<and> role = ''netadmin'' \<and> scope = Some ''t1'')\<rparr>"

definition example_signer :: "(string list, string list) signer" where
  "example_signer = \<lparr>
     s3_authorization = (\<lambda>key headers verb path. key @ ''/s3/'' @ verb @ path),
     generate = (\<lambda>key params verb server_string path.
                   key @ ''/ec2/'' @ verb @ server_string @ path @ concat params)\<rparr>"

text \<open>
  Stores: an empty one, and one whose pool for the default address holds two ports. A
  configuration with the one-port range of the specification's example. Collaborators
  that always succeed.
\<close>

definition empty_store :: "bool \<Rightarrow> datastore" where
  "empty_store vanish = \<lparr>empty_sets_vanish = vanish, port_sets = Map.empty,
     assoc_sets = Map.empty, vpn_hashes = Map.empty\<rparr>"

definition two_port_store :: datastore where
  "two_port_store = \<lparr>empty_sets_vanish = True, port_sets = [''127.0.0.1'' \<mapsto> [1000, 1001]],
     assoc_sets = Map.empty, vpn_hashes = Map.empty\<rparr>"

definition one_port_flags :: flags where
  "one_port_flags = example_flags\<lparr>vpn_start_port := 1000, vpn_end_port := 1000\<rparr>"

definition example_collaborators :: collaborators where
  "example_collaborators = \<lparr>
     generate_rc = (\<lambda>access_key secret_key pid. Inr (''rc '' @ access_key @ '' '' @ pid)),
     generate_x509_cert = (\<lambda>uid pid. Inr (''key '' @ uid, ''cert '' @ uid @ '' '' @ pid)),
     vpn_client_config = (\<lambda>keyfile certfile addr p. Inr (''remote '' @ addr)),
     fetch_ca = (\<lambda>uid. Inr ''ca'')\<rparr>"

section \<open>Properties of the role checks\<close>

text \<open>
  Claim C1. For a role other than \<open>projectmanager\<close>, \<open>has_role\<close> asks the backend for the
  global grant first. Without the global grant the answer is \<open>False\<close>, whatever the
  backend holds at project scope. With the global grant the answer is \<open>True\<close> when no
  project is given (the argument is \<^verbatim>\<open>None\<close> or the empty id, which Python's
  \<^verbatim>\<open>not project\<close> treats alike) or the role is one of the configured global roles, and
  otherwise the backend's answer at the scope of the project.
\<close>

theorem has_role_global_precedence:
  assumes "role \<noteq> ''projectmanager''"
  shows "(\<not> drv_has_role drv (user_safe_id user) role None \<longrightarrow>
            has_role cfg drv user role project = Inr False)
       \<and> (drv_has_role drv (user_safe_id user) role None \<longrightarrow>
            has_role cfg drv user role project =
              (if \<not> project_given project \<or> role \<in> set (global_roles cfg) then Inr True
               else Inr (drv_has_role drv (user_safe_id user) role (project_safe_id project))))"
  using assms by (simp add: has_role_def)

text \<open>
  The example backend grants \<open>netadmin\<close> to \<open>u1\<close> in \<open>t1\<close> only; the check in \<open>t1\<close> is
  false all the same.
\<close>

theorem has_role_global_precedence_witness:
  "drv_has_role example_driver ''u1'' ''netadmin'' (Some ''t1'')
   \<and> has_role example_flags example_driver (UserObj u1) ''netadmin'' (ProjectObj t1) = Inr False"
  using has_role_global_precedence
    [of "''netadmin''" example_driver "UserObj u1" example_flags "ProjectObj t1"]
  by (simp add: example_driver_def u1_def)

text \<open>
  Claim C5. \<open>has_role\<close> for \<open>projectmanager\<close> in a project \<open>t\<close> compares the user's id with
  the manager id of \<open>t\<close>; the answer does not depend on the role grants of the backend
  (replacing them by any \<open>grants\<close> changes nothing); without a project the call raises
  \<^verbatim>\<open>exception.Error("Must specify project")\<close>.
\<close>

theorem has_role_projectmanager:
  "has_role cfg drv user ''projectmanager'' (ProjectObj t)
     = Inr (user_safe_id user = project_manager_id t)
   \<and> has_role cfg (drv\<lparr>drv_has_role := grants\<rparr>) user ''projectmanager'' (ProjectObj t)
     = has_role cfg drv user ''projectmanager'' (ProjectObj t)
   \<and> has_role cfg drv user ''projectmanager'' NoProject = Inl (Error ''Must specify project'')"
  by (simp add: has_role_def is_project_manager_def)

theorem has_role_projectmanager_witness:
  "has_role example_flags example_driver (UserObj u1) ''projectmanager'' (ProjectObj t1) = Inr True
   \<and> has_role example_flags example_driver (UserObj u1) ''projectmanager'' (ProjectObj t2) = Inr False
   \<and> has_role example_flags example_driver (UserObj u1) ''projectmanager'' NoProject
       = Inl (Error ''Must specify project'')"
  using has_role_projectmanager [of example_flags example_driver "UserObj u1" t1]
        has_role_projectmanager [of example_flags example_driver "UserObj u1" t2]
  by (simp add: u1_def t1_def t2_def)

text \<open>
  Claim C8. A user whose admin flag is set is a superuser and an admin, for every
  configuration of the superuser and global roles and every backend.
\<close>

theorem admin_flag_overrides:
  assumes "resolve_user drv user = Some p" and "admin p"
  shows "is_superuser cfg drv user = Inr (PyBool True) \<and> is_admin cfg drv user = Inr (PyBool True)"
  using assms by (simp add: is_superuser_def is_admin_def)

theorem admin_flag_overrides_witness:
  "admin root_user
   \<and> is_superuser example_flags example_driver (UserObj root_user) = Inr (PyBool True)
   \<and> is_admin example_flags example_driver (UserId ''root'') = Inr (PyBool True)"
  using admin_flag_overrides [of example_driver "UserObj root_user" root_user example_flags]
        admin_flag_overrides [of example_driver "UserId ''root''" root_user example_flags]
  by (simp add: root_user_def example_driver_def get_user_def)

lemma any_role_none:
  "(\<And>role. role \<in> set roles \<Longrightarrow> has_role cfg drv (UserObj u) role NoProject = Inr False)
   \<Longrightarrow> any_role cfg drv u roles = Inr PyNone"
  by (induction roles) simp_all

lemma any_role_not_False: "any_role cfg drv u roles \<noteq> Inr (PyBool False)"
  by (induction roles) (simp_all split: sum.splits)

text \<open>
  Claim C10. For a user without the admin flag for whom \<open>has_role\<close> is false at every
  configured superuser role, \<open>is_superuser\<close> returns \<^verbatim>\<open>None\<close>; for a user for whom
  \<open>is_superuser\<close> returned \<^verbatim>\<open>None\<close> and \<open>has_role\<close> is false at every configured global
  role, \<open>is_admin\<close> returns \<^verbatim>\<open>None\<close>. Neither method ever returns \<^verbatim>\<open>False\<close>.
\<close>

theorem is_superuser_returns_None:
  "(resolve_user drv user = Some u \<and> \<not> admin u \<and>
     (\<forall>role \<in> set (superuser_roles cfg). has_role cfg drv (UserObj u) role NoProject = Inr False)
     \<longrightarrow> is_superuser cfg drv user = Inr PyNone)
   \<and> (resolve_user drv user = Some u \<and> is_superuser cfg drv (UserObj u) = Inr PyNone \<and>
     (\<forall>role \<in> set (global_roles cfg). has_role cfg drv (UserObj u) role NoProject = Inr False)
     \<longrightarrow> is_admin cfg drv user = Inr PyNone)
   \<and> is_superuser cfg drv user \<noteq> Inr (PyBool False)
   \<and> is_admin cfg drv user \<noteq> Inr (PyBool False)"
  by (auto simp: is_superuser_def is_admin_def any_role_none any_role_not_False
           split: option.splits sum.splits)

theorem is_superuser_returns_None_witness:
  "\<not> admin u1
   \<and> is_superuser example_flags example_driver (UserObj u1) = Inr PyNone
   \<and> is_admin example_flags example_driver (UserObj u1) = Inr PyNone"
  using is_superuser_returns_None [of example_driver "UserObj u1" u1 example_flags]
  by (simp add: u1_def example_flags_def example_driver_def has_role_def)

text \<open>
  Claim C4. \<open>add_role\<close> and \<open>remove_role\<close> hand the role \<open>projectmanager\<close> to the driver
  like every other role: the result is the result of the driver's method, for every
  driver method \<open>d\<close>. Nothing is rejected before the call.
\<close>

theorem add_role_projectmanager_delegates:
  "add_role d user ''projectmanager'' project
     = d (user_safe_id user) ''projectmanager'' (project_safe_id project)
   \<and> remove_role d user ''projectmanager'' project
     = d (user_safe_id user) ''projectmanager'' (project_safe_id project)"
  by (simp add: add_role_def remove_role_def)

section \<open>Properties of authenticate\<close>

text \<open>
  Claim C3. Once the user and the project are resolved and \<open>is_admin\<close> has returned
  \<open>adm\<close>: if \<open>adm\<close> is true or the user's id is among the member ids of the project, the
  request goes on to the signature check (it is accepted or fails with
  \<^verbatim>\<open>NotAuthorized\<close>); otherwise it fails with \<^verbatim>\<open>NotFound\<close>, the class raised for an
  unknown user or project.
\<close>

theorem authenticate_membership:
  assumes "str_partition access_str CHR '':'' = (access_key, sep, pid0)"
      and "get_user_from_access_key drv access_key = Some user"
      and "get_project drv (if pid0 = [] then user_name user else pid0) = Some project"
      and "is_admin cfg drv (UserObj user) = Inr adm"
  shows "(if truthy adm \<or> user_id user \<in> set (member_ids project)
          then authenticate cfg drv sg access_str signature params verb server_string path
                 check_type headers
                 \<in> {Inr (user, project), Inl (NotAuthorized ''Signature does not match'')}
          else authenticate cfg drv sg access_str signature params verb server_string path
                 check_type headers
                 = Inl (NotFound (''User '' @ user_id user @ '' is not a member of project ''
                                  @ project_id project)))"
  using assms by (simp add: authenticate_def is_project_member_def)

text \<open>
  \<open>u1\<close> is no admin and no member of \<open>t2\<close>: \<^verbatim>\<open>NotFound\<close>, although the signature is the
  expected one.
\<close>

theorem authenticate_membership_witness:
  "authenticate example_flags example_driver example_signer ''AK1:t2''
      ''SK1/ec2/GET127.0.0.1:8773/'' [] ''GET'' ''127.0.0.1:8773'' ''/'' ''ec2'' []
     = Inl (NotFound ''User u1 is not a member of project t2'')"
  using authenticate_membership [of "''AK1:t2''" "''AK1''" "'':''" "''t2''" example_driver u1 t2
      example_flags PyNone example_signer "''SK1/ec2/GET127.0.0.1:8773/''" "[]" "''GET''"
      "''127.0.0.1:8773''" "''/''" "''ec2''" "[]"]
  by (simp add: str_partition_def get_user_from_access_key_def get_project_def example_driver_def
        u1_def t2_def is_admin_def is_superuser_def example_flags_def has_role_def)

text \<open>
  Claim C2. When the user and project are resolved and the membership check passes,
  \<open>authenticate\<close> raises \<^verbatim>\<open>NotAuthorized\<close> exactly when the check type is \<open>s3\<close> or \<open>ec2\<close>
  and the signature differs from the one computed from the user's secret key; in every
  other case, in particular for every other check type, it returns the user and the
  project.
\<close>

theorem authenticate_signature_check:
  assumes "str_partition access_str CHR '':'' = (access_key, sep, pid0)"
      and "get_user_from_access_key drv access_key = Some user"
      and "get_project drv (if pid0 = [] then user_name user else pid0) = Some project"
      and "is_admin cfg drv (UserObj user) = Inr adm"
      and "truthy adm \<or> user_id user \<in> set (member_ids project)"
  shows "authenticate cfg drv sg access_str signature params verb server_string path
           check_type headers =
           (if (check_type = ''s3''
                 \<and> signature \<noteq> s3_authorization sg (secret user) headers verb path)
             \<or> (check_type = ''ec2''
                 \<and> signature \<noteq> generate sg (secret user) params verb server_string path)
            then Inl (NotAuthorized ''Signature does not match'')
            else Inr (user, project))"
  using assms by (auto simp: authenticate_def is_project_member_def)

text \<open>
  A wrong signature is refused under check type \<open>ec2\<close> and accepted under check type
  \<open>none\<close>.
\<close>

theorem authenticate_signature_check_witness:
  "authenticate example_flags example_driver example_signer ''AK1:t1'' ''bad'' [] ''GET''
      ''127.0.0.1:8773'' ''/'' ''ec2'' [] = Inl (NotAuthorized ''Signature does not match'')
   \<and> authenticate example_flags example_driver example_signer ''AK1:t1'' ''bad'' [] ''GET''
      ''127.0.0.1:8773'' ''/'' ''none'' [] = Inr (u1, t1)"
  using authenticate_signature_check [of "''AK1:t1''" "''AK1''" "'':''" "''t1''" example_driver
      u1 t1 example_flags PyNone example_signer "''bad''" "[]" "''GET''" "''127.0.0.1:8773''"
      "''/''" "''ec2''" "[]"]
    authenticate_signature_check [of "''AK1:t1''" "''AK1''" "'':''" "''t1''" example_driver
      u1 t1 example_flags PyNone example_signer "''bad''" "[]" "''GET''" "''127.0.0.1:8773''"
      "''/''" "''none''" "[]"]
  by (simp add: str_partition_def get_user_from_access_key_def get_project_def example_driver_def
        u1_def t1_def is_admin_def is_superuser_def example_flags_def has_role_def
        example_signer_def)

text \<open>
  The converse without any assumption: \<open>authenticate\<close> never raises \<^verbatim>\<open>NotAuthorized\<close>
  under a check type other than \<open>s3\<close> and \<open>ec2\<close>.
\<close>

lemma any_role_error: "any_role cfg drv u roles = Inl e \<Longrightarrow> e = Error ''Must specify project''"
  by (induction roles) (auto simp: has_role_def Let_def split: sum.splits if_splits)

lemma is_admin_object_error:
  "is_admin cfg drv (UserObj u) = Inl e \<Longrightarrow> e = Error ''Must specify project''"
  by (auto simp: is_admin_def is_superuser_def split: sum.splits if_splits dest: any_role_error)

lemma authenticate_NotAuthorized_only_if:
  "authenticate cfg drv sg access_str signature params verb server_string path check_type headers
     = Inl (NotAuthorized m) \<Longrightarrow> check_type = ''s3'' \<or> check_type = ''ec2''"
  by (auto simp: authenticate_def is_project_member_def Let_def
       split: prod.splits option.splits sum.splits if_splits dest: is_admin_object_error)

section \<open>Properties of the port pool\<close>

lemma smembers_sadd:
  "smembers (redis_sadd m key v) k =
     (if k = key then List.insert v (smembers m key) else smembers m k)"
  by (simp add: redis_sadd_def smembers_def)

lemma exists_sadd: "redis_exists (redis_sadd m key v) k = (k = key \<or> redis_exists m k)"
  by (simp add: redis_sadd_def redis_exists_def)

lemma smembers_store_set:
  "smembers (store_set vanish m key xs) k = (if k = key then xs else smembers m k)"
  by (simp add: store_set_def smembers_def)

lemma smembers_fold_sadd:
  "set (smembers (fold (\<lambda>i m. redis_sadd m key i) is m) key) = set is \<union> set (smembers m key)"
  by (induction "is" arbitrary: m) (auto simp: smembers_sadd)

lemma not_exists_smembers: "\<not> redis_exists m key \<Longrightarrow> smembers m key = []"
  by (simp add: redis_exists_def smembers_def)

lemma spop_empty: "smembers m key = [] \<Longrightarrow> redis_spop vanish choice m key = (None, m)"
  by (simp add: redis_spop_def)

text \<open>\<open>spop\<close> on a set with members returns one of them and removes it.\<close>

lemma spop_nonempty:
  assumes "smembers m key \<noteq> []"
  shows "\<exists>v m'. redis_spop vanish choice m key = (Some v, m')
          \<and> v \<in> set (smembers m key)
          \<and> set (smembers m' key) = set (smembers m key) - {v}"
proof -
  from assms obtain x xs where xs: "smembers m key = x # xs"
    by (cases "smembers m key") auto
  let ?v = "(x # xs) ! (choice mod length (x # xs))"
  have "redis_spop vanish choice m key
          = (Some ?v, store_set vanish m key (removeAll ?v (x # xs)))"
    by (simp add: redis_spop_def xs Let_def)
  moreover have "?v \<in> set (smembers m key)"
    unfolding xs by (rule nth_mem) simp
  moreover have "set (smembers (store_set vanish m key (removeAll ?v (x # xs))) key)
      = set (smembers m key) - {?v}"
    by (simp only: smembers_store_set xs refl if_True set_removeAll)
  ultimately show ?thesis by blast
qed

text \<open>
  \<open>find_free_port_for_ip\<close> in terms of \<open>seeded_ports\<close>: it raises \<^verbatim>\<open>NoMorePorts\<close> and
  leaves the store as it was when there is no port to choose from, and otherwise returns
  one of the ports and removes it from the free ports.
\<close>

lemma find_free_port_empty:
  assumes "seeded_ports cfg st addr = {}"
  shows "find_free_port_for_ip cfg choice addr st = (Inl NoMorePorts, st)"
proof (cases "pool_materialized st addr")
  case True
  with assms have "smembers (port_sets st) addr = []"
    by (simp add: seeded_ports_def free_ports_def)
  with True show ?thesis
    by (auto simp: find_free_port_for_ip_def pool_materialized_def spop_empty)
next
  case False
  with assms have r: "[vpn_start_port cfg..vpn_end_port cfg] = []"
    by (simp add: seeded_ports_def)
  from False have "smembers (port_sets st) addr = []"
    by (simp add: pool_materialized_def not_exists_smembers)
  with False r show ?thesis
    by (simp add: find_free_port_for_ip_def pool_materialized_def spop_empty)
qed

lemma find_free_port_nonempty:
  assumes "seeded_ports cfg st addr \<noteq> {}"
  shows "\<exists>p st1. find_free_port_for_ip cfg choice addr st = (Inr p, st1)
          \<and> p \<in> seeded_ports cfg st addr
          \<and> free_ports st1 addr = seeded_ports cfg st addr - {p}
          \<and> assoc_sets st1 = assoc_sets st
          \<and> vpn_hashes st1 = vpn_hashes st
          \<and> empty_sets_vanish st1 = empty_sets_vanish st"
proof -
  define st0 where "st0 =
        (if \<not> redis_exists (port_sets st) addr \<and> \<not> redis_exists (assoc_sets st) addr
         then st\<lparr>port_sets := fold (\<lambda>i m. redis_sadd m addr i)
                                  [vpn_start_port cfg..vpn_end_port cfg] (port_sets st)\<rparr>
         else st)"
  have free0: "set (smembers (port_sets st0) addr) = seeded_ports cfg st addr"
    by (auto simp: st0_def seeded_ports_def pool_materialized_def free_ports_def
          smembers_fold_sadd not_exists_smembers)
  with assms have "smembers (port_sets st0) addr \<noteq> []" by auto
  from spop_nonempty [OF this, of "empty_sets_vanish st0" choice]
  obtain v m' where pop:
      "redis_spop (empty_sets_vanish st0) choice (port_sets st0) addr = (Some v, m')"
    and v: "v \<in> set (smembers (port_sets st0) addr)"
    and m': "set (smembers m' addr) = set (smembers (port_sets st0) addr) - {v}"
    by blast
  have "find_free_port_for_ip cfg choice addr st = (Inr v, st0\<lparr>port_sets := m'\<rparr>)"
    using pop by (simp add: find_free_port_for_ip_def st0_def [symmetric] Let_def)
  moreover have "assoc_sets st0 = assoc_sets st" "vpn_hashes st0 = vpn_hashes st"
    "empty_sets_vanish st0 = empty_sets_vanish st"
    by (simp_all add: st0_def)
  ultimately show ?thesis using v m' free0
    by (simp add: free_ports_def)
qed

lemma free_ports_save: "free_ports (vpn_save vpn st) addr = free_ports st addr"
  by (simp add: free_ports_def vpn_save_def)

lemma materialized_save: "pool_materialized (vpn_save vpn st) (ip vpn)"
  by (simp add: pool_materialized_def vpn_save_def exists_sadd)

lemma free_ports_destroy:
  "free_ports (vpn_destroy vpn st) (ip vpn) = insert (port vpn) (free_ports st (ip vpn))"
  by (simp add: free_ports_def vpn_destroy_def smembers_sadd)

lemma free_ports_nonempty_materialized:
  "free_ports st addr \<noteq> {} \<Longrightarrow> pool_materialized st addr"
  by (auto simp: free_ports_def pool_materialized_def redis_exists_def smembers_def
        split: option.splits)

lemma num_ports_card: "num_ports_for_ip addr st = card (free_ports st addr)"
  by (simp add: num_ports_for_ip_def redis_scard_def free_ports_def)

lemma vpn_create_empty:
  assumes "seeded_ports cfg st (vpn_ip cfg) = {}"
  shows "vpn_create cfg choice pid st = (Inl NoMorePorts, st)"
  by (simp add: vpn_create_def find_free_port_empty [OF assms])

lemma vpn_create_nonempty:
  assumes "seeded_ports cfg st (vpn_ip cfg) \<noteq> {}"
  shows "\<exists>p st1. vpn_create cfg choice pid st
            = (Inr \<lparr>vpn_project = pid, ip = vpn_ip cfg, port = p\<rparr>, st1)
          \<and> p \<in> seeded_ports cfg st (vpn_ip cfg)
          \<and> free_ports st1 (vpn_ip cfg) = seeded_ports cfg st (vpn_ip cfg) - {p}
          \<and> pool_materialized st1 (vpn_ip cfg)"
proof -
  from find_free_port_nonempty [OF assms, of choice]
  obtain p st0 where f: "find_free_port_for_ip cfg choice (vpn_ip cfg) st = (Inr p, st0)"
    and p: "p \<in> seeded_ports cfg st (vpn_ip cfg)"
    and free: "free_ports st0 (vpn_ip cfg) = seeded_ports cfg st (vpn_ip cfg) - {p}"
    by blast
  let ?vpn = "\<lparr>vpn_project = pid, ip = vpn_ip cfg, port = p\<rparr>"
  have "vpn_create cfg choice pid st = (Inr ?vpn, vpn_save ?vpn st0)"
    by (simp add: vpn_create_def f Let_def)
  moreover have "pool_materialized (vpn_save ?vpn st0) (vpn_ip cfg)"
    using materialized_save [of ?vpn st0] by simp
  ultimately show ?thesis using p free by (simp add: free_ports_save)
qed

lemma vpn_create_cases:
  assumes c: "vpn_create cfg choice pid st = (Inr vpn, st1)"
  shows "ip vpn = vpn_ip cfg \<and> vpn_project vpn = pid
     \<and> port vpn \<in> seeded_ports cfg st (vpn_ip cfg)
     \<and> free_ports st1 (vpn_ip cfg) = seeded_ports cfg st (vpn_ip cfg) - {port vpn}
     \<and> pool_materialized st1 (vpn_ip cfg)"
proof (cases "seeded_ports cfg st (vpn_ip cfg) = {}")
  case True
  from vpn_create_empty [OF True, of choice pid] c show ?thesis by simp
next
  case False
  from vpn_create_nonempty [OF False, of choice pid]
  obtain p st2 where c2: "vpn_create cfg choice pid st
        = (Inr \<lparr>vpn_project = pid, ip = vpn_ip cfg, port = p\<rparr>, st2)"
    and p: "p \<in> seeded_ports cfg st (vpn_ip cfg)"
    and free: "free_ports st2 (vpn_ip cfg) = seeded_ports cfg st (vpn_ip cfg) - {p}"
    and mat: "pool_materialized st2 (vpn_ip cfg)"
    by blast
  from c c2 have vpn: "vpn = \<lparr>vpn_project = pid, ip = vpn_ip cfg, port = p\<rparr>"
    and st: "st1 = st2"
    by simp_all
  show ?thesis
    unfolding vpn st using p free mat by simp
qed

text \<open>
  Rounds of create and destroy on a pool with a free port: every round succeeds, hands
  out a port that was free, and leaves the same ports free.
\<close>

lemma rounds_restore:
  "free_ports st (vpn_ip cfg) \<noteq> {} \<Longrightarrow>
   \<exists>ps st'. create_destroy_rounds cfg rounds st = (Inr ps, st')
     \<and> length ps = length rounds
     \<and> set ps \<subseteq> free_ports st (vpn_ip cfg)
     \<and> free_ports st' (vpn_ip cfg) = free_ports st (vpn_ip cfg)"
proof (induction rounds arbitrary: st)
  case Nil
  then show ?case by simp
next
  case (Cons r rounds)
  obtain choice pid where r: "r = (choice, pid)" by (cases r)
  let ?a = "vpn_ip cfg"
  from Cons.prems have mat: "pool_materialized st ?a"
    by (rule free_ports_nonempty_materialized)
  then have seeded: "seeded_ports cfg st ?a = free_ports st ?a"
    by (simp add: seeded_ports_def)
  with Cons.prems have "seeded_ports cfg st ?a \<noteq> {}" by simp
  from vpn_create_nonempty [OF this, of choice pid]
  obtain p st1 where c: "vpn_create cfg choice pid st
        = (Inr \<lparr>vpn_project = pid, ip = ?a, port = p\<rparr>, st1)"
    and p: "p \<in> free_ports st ?a"
    and free1: "free_ports st1 ?a = free_ports st ?a - {p}"
    unfolding seeded by blast
  let ?vpn = "\<lparr>vpn_project = pid, ip = ?a, port = p\<rparr>"
  have "free_ports (vpn_destroy ?vpn st1) ?a = insert p (free_ports st1 ?a)"
    using free_ports_destroy [of ?vpn st1] by simp
  also have "\<dots> = free_ports st ?a"
    unfolding free1 using p by blast
  finally have free2: "free_ports (vpn_destroy ?vpn st1) ?a = free_ports st ?a" .
  with Cons.prems have "free_ports (vpn_destroy ?vpn st1) ?a \<noteq> {}" by simp
  from Cons.IH [OF this]
  obtain ps st' where rest:
      "create_destroy_rounds cfg rounds (vpn_destroy ?vpn st1) = (Inr ps, st')"
    and len: "length ps = length rounds"
    and sub: "set ps \<subseteq> free_ports (vpn_destroy ?vpn st1) ?a"
    and fin: "free_ports st' ?a = free_ports (vpn_destroy ?vpn st1) ?a"
    by blast
  have "create_destroy_rounds cfg (r # rounds) st = (Inr (p # ps), st')"
    by (simp add: r c rest)
  moreover have "length (p # ps) = length (r # rounds)" using len by simp
  moreover have "set (p # ps) \<subseteq> free_ports st ?a" using sub p unfolding free2 by simp
  moreover have "free_ports st' ?a = free_ports st ?a" using fin unfolding free2 .
  ultimately show ?case by blast
qed

lemmas store_simps = empty_store_def one_port_flags_def example_flags_def two_port_store_def
  pool_materialized_def redis_exists_def smembers_def redis_sadd_def store_set_def
  redis_spop_def redis_srem_def redis_scard_def find_free_port_for_ip_def num_ports_for_ip_def
  vpn_save_def vpn_create_def vpn_destroy_def free_ports_def Let_def

text \<open>
  Claim C6. Allocation is \<^verbatim>\<open>Vpn.create\<close>, the only caller of \<open>find_free_port_for_ip\<close>, and
  release is \<^verbatim>\<open>Vpn.destroy\<close>. On a materialized pool: a created \<^verbatim>\<open>Vpn\<close> holds a port that
  was free before the call and is not free after it, so that a \<^verbatim>\<open>Vpn\<close> created next holds
  a different port; destroying the \<^verbatim>\<open>Vpn\<close> restores \<open>num_ports_for_ip\<close> to its value before
  the creation; and as many rounds of create and destroy as the pool has free ports all
  succeed, never raising \<^verbatim>\<open>NoMorePorts\<close>, hand out only ports that were free, and leave
  the count as it was. This holds for every choice \<open>spop\<close> makes and for both readings of
  \<open>empty_sets_vanish\<close>.
\<close>

theorem allocate_release_round_trip:
  assumes "pool_materialized st (vpn_ip cfg)"
  shows "(\<forall>choice pid vpn st1. vpn_create cfg choice pid st = (Inr vpn, st1) \<longrightarrow>
            port vpn \<in> free_ports st (vpn_ip cfg)
            \<and> port vpn \<notin> free_ports st1 (vpn_ip cfg)
            \<and> (\<forall>choice' pid' vpn' st2. vpn_create cfg choice' pid' st1 = (Inr vpn', st2)
                  \<longrightarrow> port vpn' \<noteq> port vpn)
            \<and> num_ports_for_ip (vpn_ip cfg) (vpn_destroy vpn st1)
                = num_ports_for_ip (vpn_ip cfg) st)
       \<and> (length rounds = num_ports_for_ip (vpn_ip cfg) st \<longrightarrow>
            (\<exists>ps st'. create_destroy_rounds cfg rounds st = (Inr ps, st')
               \<and> length ps = length rounds
               \<and> set ps \<subseteq> free_ports st (vpn_ip cfg)
               \<and> num_ports_for_ip (vpn_ip cfg) st' = num_ports_for_ip (vpn_ip cfg) st))"
proof (intro conjI allI impI)
  fix choice pid vpn st1
  assume c: "vpn_create cfg choice pid st = (Inr vpn, st1)"
  from assms have seeded: "seeded_ports cfg st (vpn_ip cfg) = free_ports st (vpn_ip cfg)"
    by (simp add: seeded_ports_def)
  note facts = vpn_create_cases [OF c, unfolded seeded]
  from facts show "port vpn \<in> free_ports st (vpn_ip cfg)" by simp
  from facts show notfree: "port vpn \<notin> free_ports st1 (vpn_ip cfg)" by simp
  from facts have ipv: "ip vpn = vpn_ip cfg" by simp
  have "free_ports (vpn_destroy vpn st1) (vpn_ip cfg)
          = insert (port vpn) (free_ports st1 (vpn_ip cfg))"
    using free_ports_destroy [of vpn st1] unfolding ipv .
  also have "\<dots> = insert (port vpn) (free_ports st (vpn_ip cfg) - {port vpn})"
    using facts by simp
  also have "\<dots> = free_ports st (vpn_ip cfg)"
    using facts by blast
  finally have "free_ports (vpn_destroy vpn st1) (vpn_ip cfg) = free_ports st (vpn_ip cfg)" .
  then show "num_ports_for_ip (vpn_ip cfg) (vpn_destroy vpn st1)
               = num_ports_for_ip (vpn_ip cfg) st"
    by (simp add: num_ports_card)
  fix choice' pid' vpn' st2
  assume c': "vpn_create cfg choice' pid' st1 = (Inr vpn', st2)"
  from facts have "seeded_ports cfg st1 (vpn_ip cfg) = free_ports st1 (vpn_ip cfg)"
    by (simp add: seeded_ports_def)
  with vpn_create_cases [OF c'] have "port vpn' \<in> free_ports st1 (vpn_ip cfg)" by simp
  with notfree show "port vpn' \<noteq> port vpn" by auto
next
  assume len: "length rounds = num_ports_for_ip (vpn_ip cfg) st"
  show "\<exists>ps st'. create_destroy_rounds cfg rounds st = (Inr ps, st')
               \<and> length ps = length rounds
               \<and> set ps \<subseteq> free_ports st (vpn_ip cfg)
               \<and> num_ports_for_ip (vpn_ip cfg) st' = num_ports_for_ip (vpn_ip cfg) st"
  proof (cases "rounds = []")
    case True
    then show ?thesis by simp
  next
    case False
    then have "length rounds \<noteq> 0" by simp
    with len have "card (free_ports st (vpn_ip cfg)) \<noteq> 0" by (simp add: num_ports_card)
    then have "free_ports st (vpn_ip cfg) \<noteq> {}" by auto
    from rounds_restore [OF this, of rounds]
    obtain ps st' where "create_destroy_rounds cfg rounds st = (Inr ps, st')"
      and "length ps = length rounds" and "set ps \<subseteq> free_ports st (vpn_ip cfg)"
      and "free_ports st' (vpn_ip cfg) = free_ports st (vpn_ip cfg)"
      by blast
    then show ?thesis by (simp add: num_ports_card)
  qed
qed

text \<open>
  Two rounds on a pool of two ports: the store picks position 0, then position 1.
\<close>

theorem allocate_release_round_trip_witness:
  "pool_materialized two_port_store ''127.0.0.1''
   \<and> num_ports_for_ip ''127.0.0.1'' two_port_store = 2
   \<and> fst (create_destroy_rounds example_flags [(0, ''a''), (1, ''b'')] two_port_store)
        = Inr [1000, 1001]
   \<and> num_ports_for_ip ''127.0.0.1''
        (snd (create_destroy_rounds example_flags [(0, ''a''), (1, ''b'')] two_port_store)) = 2"
  using allocate_release_round_trip [of two_port_store example_flags "[(0, ''a''), (1, ''b'')]"]
  by (simp add: store_simps)

text \<open>
  First use and exhaustion through \<^verbatim>\<open>Vpn.create\<close>. On first use of an address (no set
  of ports and no association yet) with a range that is not empty,
  \<open>find_free_port_for_ip\<close> returns a port, and that port together with the ports left
  free is exactly the range from the start port to the end port. With the range from
  1000 to 1000, the first \<^verbatim>\<open>Vpn.create\<close> obtains port 1000 and a second \<^verbatim>\<open>Vpn.create\<close>
  that starts after the first has saved its \<^verbatim>\<open>Vpn\<close>, for any project and before any
  release, raises \<^verbatim>\<open>NoMorePorts\<close> and leaves the store as it was.
\<close>

theorem first_use_seeds_range:
  assumes "\<not> pool_materialized st addr"
  shows "(vpn_start_port cfg \<le> vpn_end_port cfg \<longrightarrow>
            (\<exists>p st1. find_free_port_for_ip cfg choice addr st = (Inr p, st1)
               \<and> p \<notin> free_ports st1 addr
               \<and> insert p (free_ports st1 addr) = {vpn_start_port cfg..vpn_end_port cfg}))
       \<and> (addr = vpn_ip cfg \<and> vpn_start_port cfg = 1000 \<and> vpn_end_port cfg = 1000 \<longrightarrow>
            (\<exists>st1. vpn_create cfg c1 pid1 st
                      = (Inr \<lparr>vpn_project = pid1, ip = vpn_ip cfg, port = 1000\<rparr>, st1)
               \<and> vpn_create cfg c2 pid2 st1 = (Inl NoMorePorts, st1)))"
proof (intro conjI impI)
  assume range: "vpn_start_port cfg \<le> vpn_end_port cfg"
  from assms have seeded: "seeded_ports cfg st addr = {vpn_start_port cfg..vpn_end_port cfg}"
    by (simp add: seeded_ports_def)
  with range have "seeded_ports cfg st addr \<noteq> {}" by simp
  from find_free_port_nonempty [OF this, of choice]
  obtain p st1 where "find_free_port_for_ip cfg choice addr st = (Inr p, st1)"
    and "p \<in> seeded_ports cfg st addr"
    and "free_ports st1 addr = seeded_ports cfg st addr - {p}"
    by blast
  then show "\<exists>p st1. find_free_port_for_ip cfg choice addr st = (Inr p, st1)
               \<and> p \<notin> free_ports st1 addr
               \<and> insert p (free_ports st1 addr) = {vpn_start_port cfg..vpn_end_port cfg}"
    unfolding seeded by blast
next
  assume one: "addr = vpn_ip cfg \<and> vpn_start_port cfg = 1000 \<and> vpn_end_port cfg = 1000"
  with assms have seeded: "seeded_ports cfg st (vpn_ip cfg) = {1000}"
    by (simp add: seeded_ports_def)
  then have "seeded_ports cfg st (vpn_ip cfg) \<noteq> {}" by simp
  from vpn_create_nonempty [OF this, of c1 pid1]
  obtain p st1 where c: "vpn_create cfg c1 pid1 st
        = (Inr \<lparr>vpn_project = pid1, ip = vpn_ip cfg, port = p\<rparr>, st1)"
    and p: "p \<in> seeded_ports cfg st (vpn_ip cfg)"
    and free: "free_ports st1 (vpn_ip cfg) = seeded_ports cfg st (vpn_ip cfg) - {p}"
    and mat: "pool_materialized st1 (vpn_ip cfg)"
    by blast
  from p have p1000: "p = 1000" unfolding seeded by simp
  from free have "free_ports st1 (vpn_ip cfg) = {}" unfolding seeded p1000 by simp
  with mat have "seeded_ports cfg st1 (vpn_ip cfg) = {}" by (simp add: seeded_ports_def)
  from vpn_create_empty [OF this, of c2 pid2] c
  show "\<exists>st1. vpn_create cfg c1 pid1 st
                      = (Inr \<lparr>vpn_project = pid1, ip = vpn_ip cfg, port = 1000\<rparr>, st1)
               \<and> vpn_create cfg c2 pid2 st1 = (Inl NoMorePorts, st1)"
    unfolding p1000 by blast
qed

theorem first_use_seeds_range_witness:
  "\<not> pool_materialized (empty_store True) ''127.0.0.1''
   \<and> fst (vpn_create one_port_flags 0 ''p1'' (empty_store True))
        = Inr \<lparr>vpn_project = ''p1'', ip = ''127.0.0.1'', port = 1000\<rparr>
   \<and> fst (vpn_create one_port_flags 0 ''p2''
             (snd (vpn_create one_port_flags 0 ''p1'' (empty_store True)))) = Inl NoMorePorts"
  using first_use_seeds_range
    [of "empty_store True" "''127.0.0.1''" one_port_flags 0 0 "''p1''" 0 "''p2''"]
  by (simp add: store_simps)

text \<open>
  That second failure rests on the association which \<^verbatim>\<open>Vpn.save\<close> records after the
  port was taken. \<open>find_free_port_for_ip\<close> itself seeds the pool whenever neither the set
  of ports nor an association exists. In a store where a set that became empty is gone
  with its key, as in Redis, taking the only port of a one-port range on first use
  leaves the address exactly as unmaterialized as it was before.
\<close>

lemma find_free_port_reseeds:
  assumes "\<not> pool_materialized st addr" and "empty_sets_vanish st"
      and "vpn_start_port cfg = n" and "vpn_end_port cfg = n"
  shows "\<exists>st1. find_free_port_for_ip cfg choice addr st = (Inr n, st1)
           \<and> \<not> pool_materialized st1 addr \<and> empty_sets_vanish st1
           \<and> free_ports st1 addr = free_ports st addr"
  using assms
  by (simp add: find_free_port_for_ip_def pool_materialized_def redis_exists_def
        redis_spop_def redis_sadd_def smembers_def store_set_def free_ports_def Let_def)

text \<open>
  Claim C7. The pool is seeded on first use with every integer of the range, and with the
  range from 1000 to 1000 the first call of \<open>find_free_port_for_ip\<close> returns port 1000.
  The second call before any release does not raise \<^verbatim>\<open>NoMorePorts\<close>: the first call has
  emptied the set, which is gone from the store, and no \<^verbatim>\<open>Vpn\<close> is associated with the
  address yet, so the guard of the seeding loop holds again, the pool is seeded a second
  time and port 1000 is returned once more. The first call leaves the empty store
  empty.
\<close>

theorem second_allocate_reseeds:
  "find_free_port_for_ip one_port_flags 0 ''127.0.0.1'' (empty_store True)
     = (Inr 1000, empty_store True)
   \<and> fst (find_free_port_for_ip one_port_flags 0 ''127.0.0.1''
            (snd (find_free_port_for_ip one_port_flags 0 ''127.0.0.1'' (empty_store True))))
     = Inr 1000"
  by (simp add: store_simps)

text \<open>
  The same happens to two calls of \<^verbatim>\<open>Vpn.create\<close> for different projects when the second
  takes its port before the first has saved: both projects end up with port 1000.
\<close>

lemma interleaved_creates_share_port:
  "vpn_lookup
     (vpn_save \<lparr>vpn_project = ''p2'', ip = ''127.0.0.1'', port = 1000\<rparr>
       (vpn_save \<lparr>vpn_project = ''p1'', ip = ''127.0.0.1'', port = 1000\<rparr>
         (snd (find_free_port_for_ip one_port_flags 0 ''127.0.0.1''
           (snd (find_free_port_for_ip one_port_flags 0 ''127.0.0.1'' (empty_store True)))))))
     ''p1'' = Some \<lparr>vpn_project = ''p1'', ip = ''127.0.0.1'', port = 1000\<rparr>"
  "vpn_lookup
     (vpn_save \<lparr>vpn_project = ''p2'', ip = ''127.0.0.1'', port = 1000\<rparr>
       (vpn_save \<lparr>vpn_project = ''p1'', ip = ''127.0.0.1'', port = 1000\<rparr>
         (snd (find_free_port_for_ip one_port_flags 0 ''127.0.0.1''
           (snd (find_free_port_for_ip one_port_flags 0 ''127.0.0.1'' (empty_store True)))))))
     ''p2'' = Some \<lparr>vpn_project = ''p2'', ip = ''127.0.0.1'', port = 1000\<rparr>"
  by (simp_all add: store_simps vpn_lookup_def)

text \<open>
  In a store that keeps a set that became empty, the second call finds the empty set
  and raises \<^verbatim>\<open>NoMorePorts\<close>.
\<close>

lemma find_free_port_for_ip_twice_kept:
  "fst (find_free_port_for_ip one_port_flags c2 a
          (snd (find_free_port_for_ip one_port_flags c1 a (empty_store False)))) = Inl NoMorePorts"
  by (simp add: store_simps)

section \<open>Properties of get\_credentials\<close>

text \<open>Without a saved \<^verbatim>\<open>Vpn\<close> for the project no bundle is returned.\<close>

lemma get_credentials_no_bundle:
  assumes "resolve_user drv user = Some u"
      and "vpn_lookup st (credentials_pid u project) = None"
  shows "\<exists>e. get_credentials cfg drv ext st user project = Inl e"
  using assms by (simp add: get_credentials_def Let_def split: sum.splits prod.splits)

text \<open>
  Claim C9. When the user is resolved, the rc file and the certificate are generated, and
  no \<^verbatim>\<open>Vpn\<close> is saved for the project, \<open>get_credentials\<close> raises
  \<^verbatim>\<open>exception.Error("No vpn data allocated for project ...")\<close> if the project was passed
  as a \<^verbatim>\<open>Project\<close> object. If the project was passed as an id or left out, building the
  message raises \<open>AttributeError\<close> instead.
\<close>

theorem get_credentials_no_vpn:
  assumes "resolve_user drv user = Some u"
      and "generate_rc ext (access u) (secret u) (credentials_pid u project) = Inr rc"
      and "generate_x509_cert ext (user_id u) (credentials_pid u project) = Inr kc"
      and "vpn_lookup st (credentials_pid u project) = None"
  shows "get_credentials cfg drv ext st user project =
           (case project of
              ProjectObj p \<Rightarrow> Inl (Error (''No vpn data allocated for project '' @ project_name p))
            | ProjectId pid \<Rightarrow> Inl AttributeError
            | NoProject \<Rightarrow> Inl AttributeError)"
  using assms by (cases project) (simp_all add: get_credentials_def Let_def split: prod.splits)

text \<open>
  Credentials of \<open>u1\<close> for the default project, where no \<^verbatim>\<open>Vpn\<close> was ever created, and
  for the same project passed as an object.
\<close>

theorem get_credentials_no_vpn_witness:
  "get_credentials example_flags example_driver example_collaborators (empty_store True)
      (UserObj u1) NoProject = Inl AttributeError
   \<and> get_credentials example_flags example_driver example_collaborators (empty_store True)
      (UserObj u1) (ProjectObj t1) = Inl (Error ''No vpn data allocated for project t1'')"
  using get_credentials_no_vpn [of example_driver "UserObj u1" u1 example_collaborators NoProject
          "''rc AK1 u1''" "(''key u1'', ''cert u1 u1'')" "empty_store True" example_flags]
        get_credentials_no_vpn [of example_driver "UserObj u1" u1 example_collaborators
          "ProjectObj t1" "''rc AK1 t1''" "(''key u1'', ''cert u1 t1'')" "empty_store True"
          example_flags]
  by (simp add: example_collaborators_def u1_def t1_def empty_store_def vpn_lookup_def)

end
